theory Spec2Isabelle
  imports Complex_Main "HOL-Library.Log_Nat"
begin

section \<open>Bayesian structural time series: the class \<open>BSTS\<close> of \<open>lib/bsts.py\<close>\<close>

text \<open>
  Numbers are modelled as \<^typ>\<open>real\<close>: every value of the program is a Python or numpy
  float, and the data model speaks of sequences of real numbers. Infinities and NaN are
  outside the model, and so is rounding: an operation of the program is the exact
  operation on reals. What is proved of a result is therefore stated with the operations
  of the program in the order of the program; where a property would need two different
  orders of operations to agree, the double-precision additions of the forecast are
  modelled with their rounding (\<open>forecast64\<close>).

  The program raises no exception of its own. Its failures are the exceptions of Python,
  numpy, pandas and the tensor library, raised inside the methods:
  \<^item> \<open>TypeError\<close>: \<open>self.trace[...]\<close> while \<open>self.trace\<close> is \<open>None\<close> (no fit was run);
  \<^item> \<open>ValueError\<close>: operands of an elementwise operation have incompatible shapes, or
    \<open>np.random.normal\<close> is given a negative scale;
  \<^item> \<open>IndexError\<close>: an index beyond the end of an array (\<open>v[0]\<close>, \<open>[:, -1]\<close>);
  \<^item> \<open>SamplerError\<close>: whatever \<open>pymc3.sample\<close> raises.
\<close>

datatype error = TypeError | ValueError | IndexError | SamplerError

definition and_then :: "error + 'a \<Rightarrow> ('a \<Rightarrow> error + 'b) \<Rightarrow> error + 'b" where
  "and_then r f = (case r of Inl e \<Rightarrow> Inl e | Inr x \<Rightarrow> f x)"

subsection \<open>Arrays and frames\<close>

text \<open>
  A two-dimensional array (a \<open>pandas.DataFrame\<close> of features, or the draws of a vector
  quantity in the trace) is its number of columns and the list of its rows; its shape is
  \<open>(nrows, ncols)\<close>. A frame with no rows still has its columns, and one with no columns
  still has its rows.
\<close>

record matrix =
  ncols :: nat
  rows :: "real list list"

definition nrows :: "matrix \<Rightarrow> nat" where
  "nrows m = length (rows m)"

definition wf_matrix :: "matrix \<Rightarrow> bool" where
  "wf_matrix m = list_all (\<lambda>r. length r = ncols m) (rows m)"

definition cell :: "matrix \<Rightarrow> nat \<Rightarrow> nat \<Rightarrow> real" where
  "cell m t i = rows m ! t ! i"

definition column :: "matrix \<Rightarrow> nat \<Rightarrow> real list" where
  "column m j = map (\<lambda>r. r ! j) (rows m)"

text \<open>\<open>a.mean()\<close> of a one-dimensional array.\<close>

definition np_mean :: "real list \<Rightarrow> real" where
  "np_mean xs = sum_list xs / real (length xs)"

text \<open>\<open>a.mean(axis=0)\<close> of a two-dimensional array: the mean of each column.\<close>

definition mean_axis0 :: "matrix \<Rightarrow> real list" where
  "mean_axis0 m = map (\<lambda>j. np_mean (column m j)) [0..<ncols m]"

text \<open>\<open>a[:, -1]\<close>: the last column; an array with no column has no index \<open>-1\<close>.\<close>

definition last_column :: "matrix \<Rightarrow> error + real list" where
  "last_column m = (if ncols m = 0 then Inl IndexError else Inr (column m (ncols m - 1)))"

text \<open>\<open>a[i]\<close> of a one-dimensional array, for an index that is not negative.\<close>

definition getitem :: "real list \<Rightarrow> nat \<Rightarrow> error + real" where
  "getitem xs i = (if i < length xs then Inr (xs ! i) else Inl IndexError)"

definition zeros :: "nat \<Rightarrow> real list" where
  "zeros n = replicate n 0"

text \<open>
  \<open>b * frame\<close> for a one-dimensional array \<open>b\<close>: pandas takes \<open>b\<close> as one value per
  column and multiplies every row by it, and refuses a \<open>b\<close> whose length is not the
  number of columns.
\<close>

definition array_mul_frame :: "real list \<Rightarrow> matrix \<Rightarrow> error + matrix" where
  "array_mul_frame b f =
     (if length b \<noteq> ncols f then Inl ValueError
      else Inr (f\<lparr>rows := map (\<lambda>r. map2 (*) b r) (rows f)\<rparr>))"

text \<open>\<open>frame.sum(axis=1)\<close>: the sum of each row.\<close>

definition sum_axis1 :: "matrix \<Rightarrow> real list" where
  "sum_axis1 f = map sum_list (rows f)"

text \<open>
  \<open>a + s\<close> for a one-dimensional array \<open>a\<close> and a series (or array) \<open>s\<close>: elementwise;
  an \<open>a\<close> of length one is broadcast along \<open>s\<close>; other lengths that differ are refused.
\<close>

definition add_arrays :: "real list \<Rightarrow> real list \<Rightarrow> error + real list" where
  "add_arrays a s =
     (if length a = length s then Inr (map2 (+) a s)
      else if length a = 1 then Inr (map (\<lambda>y. hd a + y) s)
      else Inl ValueError)"

subsection \<open>The trace and the model graph\<close>

text \<open>
  The trace maps each named quantity of the graph to its posterior draws: one number per
  draw for a scalar quantity, one row per draw for a vector quantity.
\<close>

record trace =
  trace_sigma_eps :: "real list"
  trace_alpha :: "real list"
  trace_beta :: matrix
  trace_sigma_u :: "real list"
  trace_sigma_v :: "real list"
  trace_delta :: matrix
  trace_trend :: matrix

text \<open>
  Shapes are tuples of Python integers: \<open>()\<close> for a scalar, \<open>(n,)\<close> for a vector.
  \<open>broadcast\<close> is the shape of an elementwise operation, by numpy's rule: the shapes
  are aligned at their last axes, and two lengths are compatible when they are equal or
  one of them is 1.
\<close>

type_synonym shape = "int list"

fun broadcast_rev :: "shape \<Rightarrow> shape \<Rightarrow> error + shape" where
  "broadcast_rev [] ys = Inr ys"
| "broadcast_rev (x # xs) [] = Inr (x # xs)"
| "broadcast_rev (x # xs) (y # ys) =
     (if x = y \<or> y = 1 then and_then (broadcast_rev xs ys) (\<lambda>zs. Inr (x # zs))
      else if x = 1 then and_then (broadcast_rev xs ys) (\<lambda>zs. Inr (y # zs))
      else Inl ValueError)"

definition broadcast :: "shape \<Rightarrow> shape \<Rightarrow> error + shape" where
  "broadcast a b = and_then (broadcast_rev (rev a) (rev b)) (\<lambda>zs. Inr (rev zs))"

datatype family = HalfNormal | Normal | GaussianRandomWalk

record rv =
  rv_name :: string
  rv_family :: family
  rv_shape :: shape

text \<open>
  The graph built inside \<open>with Model() as self.model\<close>: the latent quantities in the
  order of their declaration and, once \<open>y\<close> is declared, the likelihood: the shape of its
  mean \<open>trend + reg\<close>, the columns of the features the mean is built from and the
  observed series.
\<close>

record model_graph =
  free_RVs :: "rv list"
  observed_RV :: "(shape \<times> real list list \<times> real list) option"

definition declare_rv :: "string \<Rightarrow> family \<Rightarrow> shape \<Rightarrow> model_graph \<Rightarrow> model_graph" where
  "declare_rv n f s g = g\<lparr>free_RVs := free_RVs g @ [\<lparr>rv_name = n, rv_family = f, rv_shape = s\<rparr>]\<rparr>"

definition shape_of_rv :: "model_graph \<Rightarrow> string \<Rightarrow> shape option" where
  "shape_of_rv g n = map_option rv_shape (find (\<lambda>r. rv_name r = n) (free_RVs g))"

subsection \<open>The state\<close>

text \<open>
  The state a method runs in: the two fields of the object and the state of numpy's
  global random generator, of an arbitrary type \<open>'g\<close>.
\<close>

record 'g world =
  self_model :: "model_graph option"
  self_trace :: "trace option"
  np_random :: 'g

definition init :: "'g \<Rightarrow> 'g world" where
  "init g = \<lparr>self_model = None, self_trace = None, np_random = g\<rparr>"

subsection \<open>\<open>fit\<close>\<close>

text \<open>
  Python's \<open>sum\<close> over the shapes of its terms: \<open>acc = 0\<close>, then \<open>acc = acc + term\<close>
  for each term in order, every addition an elementwise operation.
\<close>

fun py_sum :: "shape \<Rightarrow> shape list \<Rightarrow> error + shape" where
  "py_sum acc [] = Inr acc"
| "py_sum acc (s # ss) = and_then (broadcast acc s) (\<lambda>a. py_sum a ss)"

text \<open>
  The shape of \<open>reg = alpha + sum(beta[i] * features.iloc[:, i] for i in range(K))\<close>:
  each term is a scalar times a column of the features, one entry per row.
\<close>

definition reg_shape :: "matrix \<Rightarrow> error + shape" where
  "reg_shape features =
     and_then (py_sum [] (map (\<lambda>i. [int (nrows features)]) [0..<ncols features]))
       (\<lambda>s. broadcast [] s)"

text \<open>
  \<open>fit\<close> binds \<open>self.model\<close> to a new graph and declares the quantities in the order of
  the source; the graph is built in place, so what was declared before a failure stays
  in \<open>self.model\<close>. The tensor library evaluates every operation on test values while
  the graph is built, and raises there when shapes do not fit; a quantity of negative
  shape (\<open>delta\<close> for an empty observed series) has no test value. The sampler \<open>sample\<close> is
  a parameter: given the graph, the number of draws and the generator state it returns
  a trace or fails. \<open>self.trace\<close> is assigned only when it returns.
\<close>

definition fit ::
  "(model_graph \<Rightarrow> int \<Rightarrow> 'g \<Rightarrow> (error + trace) \<times> 'g) \<Rightarrow>
   matrix \<Rightarrow> real list \<Rightarrow> int \<Rightarrow> 'g world \<Rightarrow> (error + unit) \<times> 'g world" where
  "fit sample features observed n_samples w =
    (let m1 = declare_rv ''sigma_eps'' HalfNormal [] \<lparr>free_RVs = [], observed_RV = None\<rparr>;
         m2 = declare_rv ''alpha'' Normal [] m1;
         m3 = declare_rv ''beta'' Normal [int (ncols features)] m2
     in case reg_shape features of
          Inl e \<Rightarrow> (Inl e, w\<lparr>self_model := Some m3\<rparr>)
        | Inr reg \<Rightarrow>
           (let m4 = declare_rv ''sigma_u'' HalfNormal [] m3;
                m5 = declare_rv ''sigma_v'' HalfNormal [] m4
            in if int (length observed) - 1 < 0 then (Inl ValueError, w\<lparr>self_model := Some m5\<rparr>)
               else
                (let m6 = declare_rv ''delta'' GaussianRandomWalk [int (length observed) - 1] m5;
                     m7 = declare_rv ''trend'' GaussianRandomWalk [int (length observed)] m6
                 in case broadcast [int (length observed)] reg of
                      Inl e \<Rightarrow> (Inl e, w\<lparr>self_model := Some m7\<rparr>)
                    | Inr mu \<Rightarrow>
                       (let m8 = m7\<lparr>observed_RV :=
                                   Some (mu, map (column features) [0..<ncols features], observed)\<rparr>
                        in case sample m8 n_samples (np_random w) of
                             (Inl e, g) \<Rightarrow> (Inl e, w\<lparr>self_model := Some m8, np_random := g\<rparr>)
                           | (Inr tr, g) \<Rightarrow>
                               (Inr (), \<lparr>self_model = Some m8, self_trace = Some tr,
                                         np_random = g\<rparr>)))))"

subsection \<open>\<open>posterior_model\<close>\<close>

definition posterior_model :: "matrix \<Rightarrow> 'g world \<Rightarrow> (error + real list) \<times> 'g world" where
  "posterior_model features w =
    (case self_trace w of
       None \<Rightarrow> (Inl TypeError, w)
     | Some tr \<Rightarrow>
        (let trend_alpha = map (\<lambda>x. x + np_mean (trace_alpha tr)) (mean_axis0 (trace_trend tr))
         in (and_then (array_mul_frame (mean_axis0 (trace_beta tr)) features)
               (\<lambda>bf. add_arrays trend_alpha (sum_axis1 bf)), w)))"

subsection \<open>\<open>predict\<close>\<close>

text \<open>
  \<open>np.random.normal(loc, scale, size)\<close>: \<open>size\<close> draws, one after the other, each
  \<open>loc + scale * z\<close> for a standard normal draw \<open>z\<close> of the generator; a negative scale
  is refused. The generator's draw \<open>gauss\<close> is a parameter.
\<close>

fun draws :: "('g \<Rightarrow> real \<times> 'g) \<Rightarrow> real \<Rightarrow> real \<Rightarrow> nat \<Rightarrow> 'g \<Rightarrow> real list \<times> 'g" where
  "draws gauss loc scale 0 g = ([], g)"
| "draws gauss loc scale (Suc n) g =
     (case gauss g of (z, g1) \<Rightarrow>
        (case draws gauss loc scale n g1 of (zs, g2) \<Rightarrow> ((loc + scale * z) # zs, g2)))"

definition np_random_normal ::
  "('g \<Rightarrow> real \<times> 'g) \<Rightarrow> real \<Rightarrow> real \<Rightarrow> nat \<Rightarrow> 'g \<Rightarrow> (error + real list) \<times> 'g" where
  "np_random_normal gauss loc scale n g =
     (if scale < 0 then (Inl ValueError, g)
      else case draws gauss loc scale n g of (xs, g') \<Rightarrow> (Inr xs, g'))"

text \<open>Lines 85 to 95: the three noise vectors \<open>(eps, u, v)\<close>, drawn in this order.\<close>

definition noise_vectors ::
  "('g \<Rightarrow> real \<times> 'g) \<Rightarrow> bool \<Rightarrow> trace \<Rightarrow> nat \<Rightarrow> 'g \<Rightarrow>
   (error + real list \<times> real list \<times> real list) \<times> 'g" where
  "noise_vectors gauss noise tr n g =
     (if noise then
        (case np_random_normal gauss 0 (np_mean (trace_sigma_eps tr)) n g of
           (Inl e, g1) \<Rightarrow> (Inl e, g1)
         | (Inr eps, g1) \<Rightarrow>
            (case np_random_normal gauss 0 (np_mean (trace_sigma_u tr)) n g1 of
               (Inl e, g2) \<Rightarrow> (Inl e, g2)
             | (Inr u, g2) \<Rightarrow>
                (case np_random_normal gauss 0 (np_mean (trace_sigma_v tr)) n g2 of
                   (Inl e, g3) \<Rightarrow> (Inl e, g3)
                 | (Inr v, g3) \<Rightarrow> (Inr (eps, u, v), g3))))
      else (Inr (zeros n, zeros n, zeros n), g))"

text \<open>
  The body of the loop of lines 99 to 101, on the two lists it appends to. The additions
  are exact here; \<open>walk_step64\<close> below is the same step with the additions rounded.
\<close>

definition walk_step ::
  "real list \<Rightarrow> real list \<Rightarrow> nat \<Rightarrow> real list \<times> real list \<Rightarrow> real list \<times> real list" where
  "walk_step u v t acc =
     (case acc of (delta, trend) \<Rightarrow>
        (let delta' = delta @ [delta ! (t - 1) + v ! t];
             trend' = trend @ [trend ! (t - 1) + delta' ! t + u ! t]
         in (delta', trend')))"

text \<open>Lines 97 to 103, for given point estimates and noise vectors.\<close>

definition forecast ::
  "trace \<Rightarrow> matrix \<Rightarrow> real \<Rightarrow> real list \<Rightarrow> real list \<Rightarrow> real list \<Rightarrow> real list \<Rightarrow>
   error + real list" where
  "forecast tr features alpha beta eps u v =
     and_then (last_column (trace_delta tr)) (\<lambda>last_delta.
     and_then (getitem v 0) (\<lambda>v0.
     and_then (last_column (trace_trend tr)) (\<lambda>last_trend.
     and_then (getitem u 0) (\<lambda>u0.
       (let delta0 = np_mean last_delta + v0;
            trend0 = np_mean last_trend + delta0 + u0;
            trend = snd (fold (walk_step u v) [1..<nrows features] ([delta0], [trend0]))
        in and_then (array_mul_frame beta features) (\<lambda>bf.
           and_then (add_arrays (map (\<lambda>x. x + alpha) trend) (sum_axis1 bf)) (\<lambda>s.
             add_arrays s eps)))))))"

definition predict ::
  "('g \<Rightarrow> real \<times> 'g) \<Rightarrow> matrix \<Rightarrow> bool \<Rightarrow> 'g world \<Rightarrow> (error + real list) \<times> 'g world" where
  "predict gauss features noise w =
    (case self_trace w of
       None \<Rightarrow> (Inl TypeError, w)
     | Some tr \<Rightarrow>
        (let alpha = np_mean (trace_alpha tr);
             beta = mean_axis0 (trace_beta tr)
         in case noise_vectors gauss noise tr (nrows features) (np_random w) of
              (Inl e, g) \<Rightarrow> (Inl e, w\<lparr>np_random := g\<rparr>)
            | (Inr (eps, u, v), g) \<Rightarrow>
                (forecast tr features alpha beta eps u v, w\<lparr>np_random := g\<rparr>)))"

subsection \<open>\<open>predict_trajectories\<close>\<close>

text \<open>
  The list comprehension \<open>[self.predict(features) for _ in range(n)]\<close>: \<open>n\<close> calls in
  order, each starting in the state the one before left; the first failure ends it.
\<close>

fun trajectories ::
  "('g \<Rightarrow> real \<times> 'g) \<Rightarrow> matrix \<Rightarrow> nat \<Rightarrow> 'g world \<Rightarrow> (error + real list list) \<times> 'g world" where
  "trajectories gauss features 0 w = (Inr [], w)"
| "trajectories gauss features (Suc n) w =
     (case predict gauss features True w of
        (Inl e, w1) \<Rightarrow> (Inl e, w1)
      | (Inr y, w1) \<Rightarrow>
         (case trajectories gauss features n w1 of
            (Inl e, w2) \<Rightarrow> (Inl e, w2)
          | (Inr ys, w2) \<Rightarrow> (Inr (y # ys), w2)))"

definition predict_trajectories ::
  "('g \<Rightarrow> real \<times> 'g) \<Rightarrow> matrix \<Rightarrow> int \<Rightarrow> 'g world \<Rightarrow> (error + real list list) \<times> 'g world" where
  "predict_trajectories gauss features n_samples w =
     trajectories gauss features (nat n_samples) w"

subsection \<open>The forecast in double precision\<close>

text \<open>
  A double-precision number is \<open>m * 2 ^ e\<close> for integers \<open>m\<close> and \<open>e\<close>, with \<open>m\<close> of at most
  53 bits; exponents are unbounded here (no overflow, no subnormal numbers). The sum of
  two such numbers is their exact sum rounded to 53 bits, to the nearest, ties to the
  even mantissa.
\<close>

type_synonym float64 = "int \<times> int"

definition float_val :: "float64 \<Rightarrow> real" where
  "float_val x =
     (if 0 \<le> snd x then real_of_int (fst x) * 2 ^ nat (snd x)
      else real_of_int (fst x) / 2 ^ nat (- snd x))"

definition round_to_53 :: "int \<Rightarrow> int \<Rightarrow> float64" where
  "round_to_53 m e =
     (let k = bitlen \<bar>m\<bar> - 53
      in if k \<le> 0 then (m, e)
         else (let q = m div 2 ^ nat k; r = m mod 2 ^ nat k; half = 2 ^ (nat k - 1)
               in (if half < r \<or> (r = half \<and> odd q) then q + 1 else q, e + k)))"

definition float_add :: "float64 \<Rightarrow> float64 \<Rightarrow> float64" where
  "float_add x y =
     (let e = min (snd x) (snd y)
      in round_to_53 (fst x * 2 ^ nat (snd x - e) + fst y * 2 ^ nat (snd y - e)) e)"

text \<open>
  Lines 97 to 103 with these additions, for \<open>n \<ge> 1\<close> rows: the anchors
  \<open>self.trace['delta'][:, -1].mean()\<close> and \<open>self.trace['trend'][:, -1].mean()\<close>, \<open>alpha\<close>, the
  row sums \<open>(beta * features).sum(axis=1)\<close> and the noise vectors are given, each array of
  length \<open>n\<close>.
\<close>

definition walk_step64 ::
  "float64 list \<Rightarrow> float64 list \<Rightarrow> nat \<Rightarrow> float64 list \<times> float64 list \<Rightarrow>
   float64 list \<times> float64 list" where
  "walk_step64 u v t acc =
     (case acc of (delta, trend) \<Rightarrow>
        (let delta' = delta @ [float_add (delta ! (t - 1)) (v ! t)];
             trend' = trend @ [float_add (float_add (trend ! (t - 1)) (delta' ! t)) (u ! t)]
         in (delta', trend')))"

definition forecast64 ::
  "float64 \<Rightarrow> float64 \<Rightarrow> float64 \<Rightarrow> float64 list \<Rightarrow> float64 list \<Rightarrow> float64 list \<Rightarrow>
   float64 list \<Rightarrow> nat \<Rightarrow> float64 list" where
  "forecast64 mean_delta mean_trend alpha reg eps u v n =
     (let delta0 = float_add mean_delta (v ! 0);
          trend0 = float_add (float_add mean_trend delta0) (u ! 0);
          trend = snd (fold (walk_step64 u v) [1..<n] ([delta0], [trend0]))
      in map (\<lambda>t. float_add (float_add (float_add (trend ! t) alpha) (reg ! t)) (eps ! t))
           [0..<n])"

section \<open>The specification's quantities\<close>

text \<open>
  The arithmetic mean across the posterior draws of entry \<open>j\<close> of a vector quantity:
  \<open>mean(q[:, j])\<close>.
\<close>

definition draw_mean :: "matrix \<Rightarrow> nat \<Rightarrow> real" where
  "draw_mean m j = (\<Sum>r\<leftarrow>rows m. r ! j) / real (nrows m)"

text \<open>The mean at the last index of the quantity: \<open>mean(q[:, last_training_index])\<close>.\<close>

definition last_mean :: "matrix \<Rightarrow> real" where
  "last_mean m = draw_mean m (ncols m - 1)"

text \<open>
  The regression at time \<open>t\<close> with the posterior means as coefficients:
  \<open>alpha_hat + \<Sum>\<^sub>i beta_hat\<^sub>i * features[t, i]\<close>.
\<close>

definition regression :: "trace \<Rightarrow> matrix \<Rightarrow> nat \<Rightarrow> real" where
  "regression tr features t =
     np_mean (trace_alpha tr) +
     (\<Sum>i\<leftarrow>[0..<ncols features]. draw_mean (trace_beta tr) i * cell features t i)"

text \<open>
  The recursion of the forecast, as the specification writes it: from the anchors \<open>d\<close>
  (slope) and \<open>m\<close> (level), \<open>delta[0] = d + v[0]\<close>, \<open>trend[0] = m + delta[0] + u[0]\<close>,
  \<open>delta[t] = delta[t-1] + v[t]\<close> and \<open>trend[t] = trend[t-1] + delta[t] + u[t]\<close>.
\<close>

fun spec_delta :: "real \<Rightarrow> real list \<Rightarrow> nat \<Rightarrow> real" where
  "spec_delta d v 0 = d + v ! 0"
| "spec_delta d v (Suc t) = spec_delta d v t + v ! Suc t"

fun spec_trend :: "real \<Rightarrow> real \<Rightarrow> real list \<Rightarrow> real list \<Rightarrow> nat \<Rightarrow> real" where
  "spec_trend m d u v 0 = m + spec_delta d v 0 + u ! 0"
| "spec_trend m d u v (Suc t) = spec_trend m d u v t + spec_delta d v (Suc t) + u ! Suc t"

text \<open>
  The level \<open>m\<close> with the slope \<open>d\<close> added to it \<open>t + 1\<close> times, one addition after the
  other: \<open>((m + d) + d) + \<dots> + d\<close>.
\<close>

fun repeated_add :: "real \<Rightarrow> real \<Rightarrow> nat \<Rightarrow> real" where
  "repeated_add m d 0 = m + d"
| "repeated_add m d (Suc t) = repeated_add m d t + d"

text \<open>The value of the trajectory at time \<open>t\<close>, for noise vectors \<open>eps\<close>, \<open>u\<close>, \<open>v\<close>.\<close>

definition spec_predict ::
  "trace \<Rightarrow> matrix \<Rightarrow> real list \<Rightarrow> real list \<Rightarrow> real list \<Rightarrow> nat \<Rightarrow> real" where
  "spec_predict tr features eps u v t =
     spec_trend (last_mean (trace_trend tr)) (last_mean (trace_delta tr)) u v t
       + regression tr features t + eps ! t"

text \<open>
  A trace as the sampler leaves it: at least one draw, the same number of draws of every
  quantity, rectangular arrays, and scales that are not negative (their prior is
  half-normal).
\<close>

definition valid_trace :: "trace \<Rightarrow> bool" where
  "valid_trace tr \<longleftrightarrow>
     0 < length (trace_alpha tr) \<and>
     length (trace_sigma_eps tr) = length (trace_alpha tr) \<and>
     length (trace_sigma_u tr) = length (trace_alpha tr) \<and>
     length (trace_sigma_v tr) = length (trace_alpha tr) \<and>
     nrows (trace_beta tr) = length (trace_alpha tr) \<and>
     nrows (trace_delta tr) = length (trace_alpha tr) \<and>
     nrows (trace_trend tr) = length (trace_alpha tr) \<and>
     wf_matrix (trace_beta tr) \<and> wf_matrix (trace_delta tr) \<and> wf_matrix (trace_trend tr) \<and>
     list_all (\<lambda>x. 0 \<le> x) (trace_sigma_eps tr) \<and>
     list_all (\<lambda>x. 0 \<le> x) (trace_sigma_u tr) \<and>
     list_all (\<lambda>x. 0 \<le> x) (trace_sigma_v tr)"

text \<open>The state of the generator after \<open>k\<close> draws.\<close>

definition advance :: "('g \<Rightarrow> real \<times> 'g) \<Rightarrow> nat \<Rightarrow> 'g \<Rightarrow> 'g" where
  "advance gauss k g = ((\<lambda>h. snd (gauss h)) ^^ k) g"

text \<open>The state after \<open>i\<close> calls of \<open>predict(features)\<close> in a row.\<close>

definition state_after :: "('g \<Rightarrow> real \<times> 'g) \<Rightarrow> matrix \<Rightarrow> nat \<Rightarrow> 'g world \<Rightarrow> 'g world" where
  "state_after gauss features i w = ((\<lambda>x. snd (predict gauss features True x)) ^^ i) w"

section \<open>A concrete model\<close>

text \<open>
  Two draws for one feature and three observations; a generator that counts its draws
  and returns the count; a sampler that returns this trace; features for a forecast of
  two steps, for the training window and for no step at all; features of three rows and
  no column, and of one row and one column.
\<close>

definition example_trace :: trace where
  "example_trace =
     \<lparr>trace_sigma_eps = [1, 3], trace_alpha = [1, 3],
      trace_beta = \<lparr>ncols = 1, rows = [[2], [4]]\<rparr>,
      trace_sigma_u = [1, 1], trace_sigma_v = [2, 2],
      trace_delta = \<lparr>ncols = 2, rows = [[0, 1], [0, 3]]\<rparr>,
      trace_trend = \<lparr>ncols = 3, rows = [[1, 2, 3], [3, 4, 5]]\<rparr>\<rparr>"

definition example_world :: "nat world" where
  "example_world = \<lparr>self_model = None, self_trace = Some example_trace, np_random = 0\<rparr>"

definition example_gauss :: "nat \<Rightarrow> real \<times> nat" where
  "example_gauss g = (real g, Suc g)"

definition example_sample :: "model_graph \<Rightarrow> int \<Rightarrow> nat \<Rightarrow> (error + trace) \<times> nat" where
  "example_sample m n g = (Inr example_trace, Suc g)"

definition example_features :: matrix where
  "example_features = \<lparr>ncols = 1, rows = [[1], [2]]\<rparr>"

definition example_training :: matrix where
  "example_training = \<lparr>ncols = 1, rows = [[1], [2], [3]]\<rparr>"

definition no_rows :: matrix where
  "no_rows = \<lparr>ncols = 1, rows = []\<rparr>"

definition no_columns :: matrix where
  "no_columns = \<lparr>ncols = 0, rows = [[], [], []]\<rparr>"

definition one_row :: matrix where
  "one_row = \<lparr>ncols = 1, rows = [[1]]\<rparr>"

text \<open>
  Double-precision numbers: zero, the double nearest to one tenth, and the sums of the
  latter added to zero one to eight times, each sum rounded.
\<close>

definition float_zero :: float64 where
  "float_zero = (0, 0)"

definition float_tenth :: float64 where
  "float_tenth = (3602879701896397, - 55)"

definition float64_sums :: "float64 list" where
  "float64_sums =
     [float_tenth, (7205759403792794, - 55),
      (5404319552844596, - 54),
      (7205759403792794, - 54),
      (4503599627370496, - 53),
      (5404319552844595, - 53),
      (6305039478318694, - 53),
      (7205759403792793, - 53)]"

section \<open>Lemmas on the arrays\<close>

lemma and_then_Inr [simp]: "and_then (Inr x) f = f x"
  by (simp add: and_then_def)

lemma and_then_Inl [simp]: "and_then (Inl e) f = Inl e"
  by (simp add: and_then_def)

lemma np_mean_column: "np_mean (column m j) = draw_mean m j"
  by (simp add: np_mean_def column_def draw_mean_def nrows_def)

lemma mean_axis0_nth: "j < ncols m \<Longrightarrow> mean_axis0 m ! j = draw_mean m j"
  by (simp add: mean_axis0_def np_mean_column)

lemma length_mean_axis0 [simp]: "length (mean_axis0 m) = ncols m"
  by (simp add: mean_axis0_def)

lemma last_column_Inr: "0 < ncols m \<Longrightarrow> last_column m = Inr (column m (ncols m - 1))"
  by (simp add: last_column_def)

lemma sum_list_map2_nth:
  "length b = length r \<Longrightarrow> sum_list (map2 (*) b r) = (\<Sum>i\<leftarrow>[0..<length r]. b ! i * r ! i)"
proof (induction b r rule: list_induct2)
  case Nil
  show ?case by simp
next
  case (Cons x xs y ys)
  have "[0..<Suc (length ys)] = 0 # map Suc [0..<length ys]"
    by (simp add: upt_conv_Cons map_Suc_upt del: upt_Suc)
  then show ?case
    using Cons.IH by (simp add: comp_def del: upt_Suc)
qed

lemma row_product_sum:
  assumes "wf_matrix f" and "length b = ncols f" and "t < nrows f"
  shows "sum_list (map2 (*) b (rows f ! t)) = (\<Sum>i\<leftarrow>[0..<ncols f]. b ! i * cell f t i)"
proof -
  have "length (rows f ! t) = ncols f"
    using assms(1,3) by (simp add: wf_matrix_def nrows_def list_all_length)
  then show ?thesis
    using sum_list_map2_nth [of b "rows f ! t"] assms(2) by (simp add: cell_def)
qed

lemma mean_axis0_sum:
  "(\<Sum>i\<leftarrow>[0..<ncols m]. mean_axis0 m ! i * c i) = (\<Sum>i\<leftarrow>[0..<ncols m]. draw_mean m i * c i)"
  by (rule arg_cong [where f = sum_list]) (simp add: mean_axis0_nth)

text \<open>The row sums of \<open>beta * features\<close> are the sums of the specification.\<close>

lemma beta_features_rows:
  assumes wf: "wf_matrix features" and K: "ncols (trace_beta tr) = ncols features"
  shows "sum_axis1 (features\<lparr>rows := map (\<lambda>r. map2 (*) (mean_axis0 (trace_beta tr)) r) (rows features)\<rparr>) =
      map (\<lambda>t. \<Sum>i\<leftarrow>[0..<ncols features]. draw_mean (trace_beta tr) i * cell features t i)
        [0..<nrows features]"
    (is "?l = ?r")
proof (rule nth_equalityI)
  show "length ?l = length ?r"
    by (simp add: sum_axis1_def nrows_def)
next
  fix t
  assume "t < length ?l"
  then have t: "t < nrows features"
    by (simp add: sum_axis1_def nrows_def)
  have "sum_list (map2 (*) (mean_axis0 (trace_beta tr)) (rows features ! t)) =
      (\<Sum>i\<leftarrow>[0..<ncols features]. mean_axis0 (trace_beta tr) ! i * cell features t i)"
    using wf K t by (intro row_product_sum) simp_all
  also have "\<dots> = (\<Sum>i\<leftarrow>[0..<ncols features]. draw_mean (trace_beta tr) i * cell features t i)"
    using mean_axis0_sum [of "trace_beta tr" "cell features t"] by (simp add: K)
  finally show "?l ! t = ?r ! t"
    using t by (simp add: sum_axis1_def nrows_def)
qed

section \<open>Lemmas on the forecast\<close>

text \<open>The loop appends, step by step, the values of the specification's recursion.\<close>

lemma walk_fold:
  "fold (walk_step u v) [1..<Suc k] ([spec_delta d v 0], [spec_trend m d u v 0]) =
     (map (spec_delta d v) [0..<Suc k], map (spec_trend m d u v) [0..<Suc k])"
proof (induction k)
  case 0
  show ?case by simp
next
  case (Suc k)
  have "[1..<Suc (Suc k)] = [1..<Suc k] @ [Suc k]"
    by simp
  then have "fold (walk_step u v) [1..<Suc (Suc k)] ([spec_delta d v 0], [spec_trend m d u v 0]) =
      walk_step u v (Suc k) (map (spec_delta d v) [0..<Suc k], map (spec_trend m d u v) [0..<Suc k])"
    using Suc.IH by (simp del: upt_Suc)
  also have "\<dots> = (map (spec_delta d v) [0..<Suc (Suc k)], map (spec_trend m d u v) [0..<Suc (Suc k)])"
    by (simp add: walk_step_def Let_def nth_append del: upt_Suc) (simp add: nth_append)
  finally show ?case .
qed

lemma forecast_eq:
  assumes cols: "0 < ncols (trace_delta tr)" "0 < ncols (trace_trend tr)"
    and n: "nrows features = Suc k"
    and len: "length eps = Suc k" "length u = Suc k" "length v = Suc k"
    and wf: "wf_matrix features"
    and K: "ncols (trace_beta tr) = ncols features"
  shows "forecast tr features (np_mean (trace_alpha tr)) (mean_axis0 (trace_beta tr)) eps u v =
    Inr (map (spec_predict tr features eps u v) [0..<Suc k])"
proof -
  let ?m = "last_mean (trace_trend tr)" and ?d = "last_mean (trace_delta tr)"
  let ?beta = "mean_axis0 (trace_beta tr)"
  have walk: "snd (fold (walk_step u v) [1..<nrows features]
        ([np_mean (column (trace_delta tr) (ncols (trace_delta tr) - 1)) + v ! 0],
         [np_mean (column (trace_trend tr) (ncols (trace_trend tr) - 1)) +
          (np_mean (column (trace_delta tr) (ncols (trace_delta tr) - 1)) + v ! 0) + u ! 0]))
      = map (spec_trend ?m ?d u v) [0..<Suc k]"
    using walk_fold [of u v k ?d ?m] by (simp add: n np_mean_column last_mean_def del: upt_Suc)
  have mul: "array_mul_frame ?beta features =
      Inr (features\<lparr>rows := map (\<lambda>r. map2 (*) ?beta r) (rows features)\<rparr>)"
    by (simp add: array_mul_frame_def K)
  have sums: "sum_axis1 (features\<lparr>rows := map (\<lambda>r. map2 (*) ?beta r) (rows features)\<rparr>) =
      map (\<lambda>t. \<Sum>i\<leftarrow>[0..<ncols features]. draw_mean (trace_beta tr) i * cell features t i)
        [0..<Suc k]"
    using beta_features_rows [OF wf K] by (simp only: n)
  have get: "getitem v 0 = Inr (v ! 0)" "getitem u 0 = Inr (u ! 0)"
    by (simp_all add: getitem_def len)
  have "forecast tr features (np_mean (trace_alpha tr)) ?beta eps u v =
      and_then (add_arrays (map (\<lambda>x. x + np_mean (trace_alpha tr)) (map (spec_trend ?m ?d u v) [0..<Suc k]))
        (map (\<lambda>t. \<Sum>i\<leftarrow>[0..<ncols features]. draw_mean (trace_beta tr) i * cell features t i)
          [0..<Suc k])) (\<lambda>s. add_arrays s eps)"
    unfolding forecast_def
    by (simp only: last_column_Inr [OF cols(1)] last_column_Inr [OF cols(2)] and_then_Inr
        Let_def get walk mul sums)
  also have "\<dots> = Inr (map (spec_predict tr features eps u v) [0..<Suc k])"
    apply (simp add: add_arrays_def len del: upt_Suc)
    apply (rule nth_equalityI)
     apply (simp_all add: len regression_def spec_predict_def del: upt_Suc)
    done
  finally show ?thesis .
qed

section \<open>Lemmas on the noise\<close>

lemma draws_eq:
  "\<exists>xs. draws gauss loc scale n g = (xs, advance gauss n g) \<and> length xs = n"
proof (induction n arbitrary: g)
  case 0
  show ?case by (simp add: advance_def)
next
  case (Suc n)
  obtain z g1 where z: "gauss g = (z, g1)"
    by (cases "gauss g")
  obtain zs where zs: "draws gauss loc scale n g1 = (zs, advance gauss n g1)" "length zs = n"
    using Suc.IH [of g1] by blast
  have "advance gauss (Suc n) g = advance gauss n g1"
    using z funpow_swap1 [of "\<lambda>h. snd (gauss h)" n g] by (simp add: advance_def)
  then show ?case
    using z zs by simp
qed

lemma np_mean_nonneg: "list_all (\<lambda>x. 0 \<le> x) xs \<Longrightarrow> 0 \<le> np_mean xs"
  by (simp add: np_mean_def list_all_iff sum_list_nonneg)

lemma advance_add: "advance gauss j (advance gauss i g) = advance gauss (i + j) g"
  by (simp add: advance_def funpow_add add.commute [of i j])

lemma np_random_normal_ok:
  "0 \<le> scale \<Longrightarrow> \<exists>xs. np_random_normal gauss loc scale n g = (Inr xs, advance gauss n g) \<and> length xs = n"
  using draws_eq [of gauss loc scale n g] by (auto simp: np_random_normal_def)

lemma noise_vectors_False:
  "noise_vectors gauss False tr n g = (Inr (zeros n, zeros n, zeros n), g)"
  by (simp add: noise_vectors_def)

lemma noise_vectors_True:
  assumes "valid_trace tr"
  shows "\<exists>eps u v. noise_vectors gauss True tr n g = (Inr (eps, u, v), advance gauss (3 * n) g)
      \<and> length eps = n \<and> length u = n \<and> length v = n"
proof -
  have s: "0 \<le> np_mean (trace_sigma_eps tr)" "0 \<le> np_mean (trace_sigma_u tr)"
      "0 \<le> np_mean (trace_sigma_v tr)"
    using assms by (simp_all add: valid_trace_def np_mean_nonneg)
  obtain eps where eps: "np_random_normal gauss 0 (np_mean (trace_sigma_eps tr)) n g =
      (Inr eps, advance gauss n g)" "length eps = n"
    using np_random_normal_ok [OF s(1), where gauss = gauss and loc = 0 and n = n and g = g] by blast
  obtain u where u: "np_random_normal gauss 0 (np_mean (trace_sigma_u tr)) n (advance gauss n g) =
      (Inr u, advance gauss n (advance gauss n g))" "length u = n"
    using np_random_normal_ok [OF s(2), where gauss = gauss and loc = 0 and n = n and g = "advance gauss n g"] by blast
  obtain v where v: "np_random_normal gauss 0 (np_mean (trace_sigma_v tr)) n
        (advance gauss n (advance gauss n g)) =
      (Inr v, advance gauss n (advance gauss n (advance gauss n g)))" "length v = n"
    using np_random_normal_ok [OF s(3), where gauss = gauss and loc = 0 and n = n and g = "advance gauss n (advance gauss n g)"] by blast
  have "n + n + n = 3 * n"
    by simp
  then have "advance gauss n (advance gauss n (advance gauss n g)) = advance gauss (3 * n) g"
    by (simp only: advance_add)
  then show ?thesis
    using eps u v by (simp add: noise_vectors_def)
qed

text \<open>Without noise the slope stays at its anchor and is added to the level at each step.\<close>

lemma spec_delta_zeros: "t < n \<Longrightarrow> spec_delta d (zeros n) t = d"
  by (induction t) (simp_all add: zeros_def)

lemma spec_trend_zeros:
  "t < n \<Longrightarrow> spec_trend m d (zeros n) (zeros n) t = repeated_add m d t"
  by (induction t) (simp_all add: spec_delta_zeros, simp_all add: zeros_def)

lemma predict_fitted:
  assumes tr: "self_trace w = Some tr"
    and nv: "noise_vectors gauss noise tr (nrows features) (np_random w) = (Inr (eps, u, v), g)"
  shows "predict gauss features noise w =
      (forecast tr features (np_mean (trace_alpha tr)) (mean_axis0 (trace_beta tr)) eps u v,
       w\<lparr>np_random := g\<rparr>)"
  by (simp add: predict_def tr nv)

text \<open>The concrete model satisfies the hypotheses; its point estimates and its noise.\<close>

lemma example_valid:
  "self_trace example_world = Some example_trace" "valid_trace example_trace"
  "0 < ncols (trace_delta example_trace)" "0 < ncols (trace_trend example_trace)"
  "wf_matrix example_features" "ncols example_features = ncols (trace_beta example_trace)"
  "1 \<le> nrows example_features"
  by (simp_all add: example_world_def example_trace_def example_features_def valid_trace_def
      nrows_def wf_matrix_def)

lemma example_means:
  "np_mean (trace_alpha example_trace) = 2"
  "np_mean (trace_sigma_eps example_trace) = 2"
  "np_mean (trace_sigma_u example_trace) = 1"
  "np_mean (trace_sigma_v example_trace) = 2"
  "last_mean (trace_trend example_trace) = 4"
  "last_mean (trace_delta example_trace) = 2"
  "draw_mean (trace_beta example_trace) 0 = 3"
  by (simp_all add: example_trace_def np_mean_def last_mean_def draw_mean_def nrows_def)

lemma example_noise:
  "noise_vectors example_gauss True example_trace 2 0 = (Inr ([0, 2], [2, 3], [8, 10]), 6)"
  by (simp add: noise_vectors_def np_random_normal_def example_means example_gauss_def
      numeral_2_eq_2)

lemma zeros_nth: "t < n \<Longrightarrow> zeros n ! t = 0"
  by (simp add: zeros_def)

lemma example_rows:
  "[0..<nrows example_features] = [0, 1]" "[0..<ncols example_features] = [0]"
  "cell example_features 0 0 = 1" "cell example_features (Suc 0) 0 = 2"
  by (simp_all add: nrows_def example_features_def numeral_2_eq_2 cell_def)

lemma forecast_no_rows:
  assumes "v = []"
  shows "forecast tr features alpha beta eps u v = Inl IndexError"
  using assms by (simp add: forecast_def last_column_def getitem_def)

lemma example_training_valid:
  "wf_matrix example_training" "ncols example_training = ncols (trace_beta example_trace)"
  "nrows example_training = ncols (trace_trend example_trace)"
  by (simp_all add: example_training_def example_trace_def nrows_def wf_matrix_def)

lemma example_training_cells:
  "nrows example_training = 3" "[0..<ncols example_training] = [0]"
  "cell example_training 0 0 = 1" "cell example_training (Suc 0) 0 = 2"
  "cell example_training 2 0 = 3"
  "draw_mean (trace_trend example_trace) 0 = 2" "draw_mean (trace_trend example_trace) (Suc 0) = 3"
  "draw_mean (trace_trend example_trace) 2 = 4"
  by (simp_all add: example_training_def example_trace_def nrows_def cell_def draw_mean_def)

section \<open>Lemmas on \<open>fit\<close> and on repeated forecasts\<close>

lemma broadcast_scalar: "broadcast [] s = Inr s"
  by (simp add: broadcast_def)

lemma broadcast_vectors:
  "broadcast [a] [b] =
     (if a = b \<or> b = 1 then Inr [a] else if a = 1 then Inr [b] else Inl ValueError)"
  by (simp add: broadcast_def)

lemma py_sum_replicate: "py_sum [r] (replicate k [r]) = Inr [r]"
  by (induction k) (simp_all add: broadcast_vectors)

lemma reg_shape_eq:
  "reg_shape features = Inr (if ncols features = 0 then [] else [int (nrows features)])"
proof (cases "ncols features")
  case 0
  then show ?thesis
    by (simp add: reg_shape_def broadcast_scalar)
next
  case (Suc k)
  have "map (\<lambda>i. [int (nrows features)]) [0..<Suc k] = replicate (Suc k) [int (nrows features)]"
    by (simp only: map_replicate_const length_upt diff_zero)
  then show ?thesis
    using Suc by (simp add: reg_shape_def broadcast_scalar py_sum_replicate del: upt_Suc)
qed

lemma predict_self_trace: "self_trace (snd (predict gauss features noise w)) = self_trace w"
  by (cases "self_trace w") (auto simp: predict_def Let_def split: prod.splits sum.splits)

lemma predict_noisy:
  assumes tr: "self_trace w = Some tr" "valid_trace tr"
    and cols: "0 < ncols (trace_delta tr)" "0 < ncols (trace_trend tr)"
    and f: "wf_matrix features" "ncols features = ncols (trace_beta tr)" "1 \<le> nrows features"
  shows "\<exists>ys. predict gauss features True w =
        (Inr ys, w\<lparr>np_random := advance gauss (3 * nrows features) (np_random w)\<rparr>)
      \<and> length ys = nrows features"
proof -
  obtain k where k: "nrows features = Suc k"
    using f(3) by (cases "nrows features") simp_all
  obtain eps u v where nv: "noise_vectors gauss True tr (nrows features) (np_random w) =
        (Inr (eps, u, v), advance gauss (3 * nrows features) (np_random w))"
      "length eps = nrows features" "length u = nrows features" "length v = nrows features"
    using noise_vectors_True [OF tr(2), of gauss "nrows features" "np_random w"] by blast
  have "forecast tr features (np_mean (trace_alpha tr)) (mean_axis0 (trace_beta tr)) eps u v =
      Inr (map (spec_predict tr features eps u v) [0..<nrows features])"
    using forecast_eq [OF cols k _ _ _ f(1), of eps u v] nv(2-4) f(2) by (simp only: k)
  then show ?thesis
    using predict_fitted [OF tr(1) nv(1)] by simp
qed

lemma state_after_Suc:
  "state_after gauss features (Suc i) w =
     snd (predict gauss features True (state_after gauss features i w))"
  by (simp add: state_after_def)

lemma state_after_shift:
  "state_after gauss features (Suc i) w =
     state_after gauss features i (snd (predict gauss features True w))"
  using funpow_swap1 [of "\<lambda>x. snd (predict gauss features True x)" i w]
  by (simp add: state_after_def)

lemma state_after_trace: "self_trace (state_after gauss features i w) = self_trace w"
  by (induction i) (simp_all add: state_after_Suc predict_self_trace, simp add: state_after_def)

lemma state_after_random:
  assumes tr: "self_trace w = Some tr" "valid_trace tr"
    and cols: "0 < ncols (trace_delta tr)" "0 < ncols (trace_trend tr)"
    and f: "wf_matrix features" "ncols features = ncols (trace_beta tr)" "1 \<le> nrows features"
  shows "np_random (state_after gauss features i w) =
      advance gauss (3 * nrows features * i) (np_random w)"
proof (induction i)
  case 0
  show ?case by (simp add: state_after_def advance_def)
next
  case (Suc i)
  have "self_trace (state_after gauss features i w) = Some tr"
    by (simp add: state_after_trace tr(1))
  then obtain ys where "predict gauss features True (state_after gauss features i w) =
      (Inr ys, (state_after gauss features i w)\<lparr>np_random :=
         advance gauss (3 * nrows features) (np_random (state_after gauss features i w))\<rparr>)"
    using predict_noisy [OF _ tr(2) cols f] by blast
  then show ?case
    by (simp add: state_after_Suc Suc.IH advance_add add.commute)
qed

lemma trajectories_rows:
  assumes tr: "valid_trace tr"
    and cols: "0 < ncols (trace_delta tr)" "0 < ncols (trace_trend tr)"
    and f: "wf_matrix features" "ncols features = ncols (trace_beta tr)" "1 \<le> nrows features"
  shows "self_trace w = Some tr \<Longrightarrow>
    \<exists>table. trajectories gauss features n w = (Inr table, state_after gauss features n w)
      \<and> length table = n
      \<and> (\<forall>i<n. length (table ! i) = nrows features
            \<and> predict gauss features True (state_after gauss features i w) =
                (Inr (table ! i), state_after gauss features (Suc i) w))"
proof (induction n arbitrary: w)
  case 0
  show ?case by (simp add: state_after_def)
next
  case (Suc n)
  obtain y w1 where y: "predict gauss features True w = (Inr y, w1)" "length y = nrows features"
    using predict_noisy [OF Suc.prems tr cols f, of gauss] by auto
  have w1: "snd (predict gauss features True w) = w1"
    using y(1) by simp
  have "self_trace w1 = Some tr"
    using predict_self_trace [of gauss features True w] Suc.prems by (simp add: w1)
  then obtain ys where ys: "trajectories gauss features n w1 = (Inr ys, state_after gauss features n w1)"
      "length ys = n"
      "\<forall>i<n. length (ys ! i) = nrows features
            \<and> predict gauss features True (state_after gauss features i w1) =
                (Inr (ys ! i), state_after gauss features (Suc i) w1)"
    using Suc.IH by blast
  have shift: "state_after gauss features (Suc i) w = state_after gauss features i w1" for i
    by (simp add: state_after_shift w1)
  have t: "trajectories gauss features (Suc n) w = (Inr (y # ys), state_after gauss features (Suc n) w)"
    by (simp add: y(1) ys(1) shift)
  have "length ((y # ys) ! i) = nrows features
      \<and> predict gauss features True (state_after gauss features i w) =
          (Inr ((y # ys) ! i), state_after gauss features (Suc i) w)" if "i < Suc n" for i
  proof (cases i)
    case 0
    then show ?thesis
      using y by (simp add: shift) (simp add: state_after_def)
  next
    case (Suc j)
    then show ?thesis
      using ys(3) that by (simp add: shift)
  qed
  then show ?case
    using t ys(2) by (intro exI [of _ "y # ys"]) simp
qed

section \<open>Lemmas on the double-precision forecast\<close>

lemma bitlen_values:
  "bitlen 3602879701896397 = 52"
  "bitlen 4503599627370496 = 53"
  "bitlen 5404319552844595 = 53"
  "bitlen 5404319552844596 = 53"
  "bitlen 6305039478318694 = 53"
  "bitlen 7205759403792793 = 53"
  "bitlen 7205759403792794 = 53"
  "bitlen 10808639105689191 = 54"
  "bitlen 14411518807585589 = 54"
  "bitlen 18014398509481985 = 55"
  "bitlen 21617278211378381 = 55"
  "bitlen 25220157913274777 = 55"
  "bitlen 28823037615171173 = 55"
  by code_simp+

lemma float_add_zero:
  assumes "snd x \<le> 0" and "bitlen \<bar>fst x\<bar> \<le> 53"
  shows "float_add x float_zero = x" and "float_add float_zero x = x"
  using assms by (simp_all add: float_add_def float_zero_def round_to_53_def min_def)

lemma float_add_zeros:
  "float_add float_tenth float_zero = float_tenth"
  "float_add float_zero float_tenth = float_tenth"
  "float_add (7205759403792794, - 55) float_zero = (7205759403792794, - 55)"
  "float_add (5404319552844596, - 54) float_zero = (5404319552844596, - 54)"
  "float_add (7205759403792794, - 54) float_zero = (7205759403792794, - 54)"
  "float_add (4503599627370496, - 53) float_zero = (4503599627370496, - 53)"
  "float_add (5404319552844595, - 53) float_zero = (5404319552844595, - 53)"
  "float_add (6305039478318694, - 53) float_zero = (6305039478318694, - 53)"
  "float_add (7205759403792793, - 53) float_zero = (7205759403792793, - 53)"
  by (rule float_add_zero; simp add: float_tenth_def bitlen_values)+

lemma float_add_tenth:
  "float_add float_tenth float_tenth = (7205759403792794, - 55)"
  "float_add (7205759403792794, - 55) float_tenth = (5404319552844596, - 54)"
  "float_add (5404319552844596, - 54) float_tenth = (7205759403792794, - 54)"
  "float_add (7205759403792794, - 54) float_tenth = (4503599627370496, - 53)"
  "float_add (4503599627370496, - 53) float_tenth = (5404319552844595, - 53)"
  "float_add (5404319552844595, - 53) float_tenth = (6305039478318694, - 53)"
  "float_add (6305039478318694, - 53) float_tenth = (7205759403792793, - 53)"
  by (simp_all add: float_add_def float_tenth_def round_to_53_def bitlen_values)

lemma upt_1_8: "[1..<8] = [1, 2, 3, 4, 5, 6, 7 :: nat]"
  by code_simp

lemma upt_0_8: "[0..<8] = [0, 1, 2, 3, 4, 5, 6, 7 :: nat]"
  by code_simp

lemma zeros64_nth: "t < 8 \<Longrightarrow> replicate 8 float_zero ! t = float_zero"
  by simp

lemma walk_step64_zero:
  assumes "t < 8" and "length delta = t" and "length trend = t" and "0 < t"
  shows "walk_step64 (replicate 8 float_zero) (replicate 8 float_zero) t (delta, trend) =
    (delta @ [float_add (last delta) float_zero],
     trend @ [float_add (float_add (last trend) (float_add (last delta) float_zero)) float_zero])"
proof -
  have "delta \<noteq> []" "trend \<noteq> []"
    using assms by auto
  then have l: "delta ! (t - Suc 0) = last delta" "trend ! (t - Suc 0) = last trend"
    using assms(2,3) by (simp_all add: last_conv_nth)
  have n: "(delta @ [x]) ! t = x" for x
    using assms(2) by (simp add: nth_append)
  show ?thesis
    by (simp add: walk_step64_def Let_def l n assms(1))
qed

lemma walk64_steps:
  "walk_step64 (replicate 8 float_zero) (replicate 8 float_zero) 1
     ([float_tenth],
      [float_tenth]) =
     ([float_tenth, float_tenth],
      [float_tenth, (7205759403792794, - 55)])"
  "walk_step64 (replicate 8 float_zero) (replicate 8 float_zero) 2
     ([float_tenth, float_tenth],
      [float_tenth, (7205759403792794, - 55)]) =
     ([float_tenth, float_tenth, float_tenth],
      [float_tenth, (7205759403792794, - 55), (5404319552844596, - 54)])"
  "walk_step64 (replicate 8 float_zero) (replicate 8 float_zero) 3
     ([float_tenth, float_tenth, float_tenth],
      [float_tenth, (7205759403792794, - 55), (5404319552844596, - 54)]) =
     ([float_tenth, float_tenth, float_tenth, float_tenth],
      [float_tenth, (7205759403792794, - 55), (5404319552844596, - 54), (7205759403792794, - 54)])"
  "walk_step64 (replicate 8 float_zero) (replicate 8 float_zero) 4
     ([float_tenth, float_tenth, float_tenth, float_tenth],
      [float_tenth, (7205759403792794, - 55), (5404319552844596, - 54), (7205759403792794, - 54)]) =
     ([float_tenth, float_tenth, float_tenth, float_tenth, float_tenth],
      [float_tenth, (7205759403792794, - 55), (5404319552844596, - 54), (7205759403792794, - 54), (4503599627370496, - 53)])"
  "walk_step64 (replicate 8 float_zero) (replicate 8 float_zero) 5
     ([float_tenth, float_tenth, float_tenth, float_tenth, float_tenth],
      [float_tenth, (7205759403792794, - 55), (5404319552844596, - 54), (7205759403792794, - 54), (4503599627370496, - 53)]) =
     ([float_tenth, float_tenth, float_tenth, float_tenth, float_tenth, float_tenth],
      [float_tenth, (7205759403792794, - 55), (5404319552844596, - 54), (7205759403792794, - 54), (4503599627370496, - 53), (5404319552844595, - 53)])"
  "walk_step64 (replicate 8 float_zero) (replicate 8 float_zero) 6
     ([float_tenth, float_tenth, float_tenth, float_tenth, float_tenth, float_tenth],
      [float_tenth, (7205759403792794, - 55), (5404319552844596, - 54), (7205759403792794, - 54), (4503599627370496, - 53), (5404319552844595, - 53)]) =
     ([float_tenth, float_tenth, float_tenth, float_tenth, float_tenth, float_tenth, float_tenth],
      [float_tenth, (7205759403792794, - 55), (5404319552844596, - 54), (7205759403792794, - 54), (4503599627370496, - 53), (5404319552844595, - 53), (6305039478318694, - 53)])"
  "walk_step64 (replicate 8 float_zero) (replicate 8 float_zero) 7
     ([float_tenth, float_tenth, float_tenth, float_tenth, float_tenth, float_tenth, float_tenth],
      [float_tenth, (7205759403792794, - 55), (5404319552844596, - 54), (7205759403792794, - 54), (4503599627370496, - 53), (5404319552844595, - 53), (6305039478318694, - 53)]) =
     ([float_tenth, float_tenth, float_tenth, float_tenth, float_tenth, float_tenth, float_tenth, float_tenth],
      [float_tenth, (7205759403792794, - 55), (5404319552844596, - 54), (7205759403792794, - 54), (4503599627370496, - 53), (5404319552844595, - 53), (6305039478318694, - 53), (7205759403792793, - 53)])"
  by (subst walk_step64_zero; simp add: float_add_zeros float_add_tenth)+

lemma walk64_fold:
  "snd (fold (walk_step64 (replicate 8 float_zero) (replicate 8 float_zero)) [1..<8]
     ([float_tenth], [float_tenth])) = float64_sums"
  by (simp only: upt_1_8 fold_simps walk64_steps float64_sums_def snd_conv)

lemma forecast64_sums:
  "forecast64 float_tenth float_zero float_zero (replicate 8 float_zero)
     (replicate 8 float_zero) (replicate 8 float_zero) (replicate 8 float_zero) 8 = float64_sums"
proof -
  have "forecast64 float_tenth float_zero float_zero (replicate 8 float_zero)
     (replicate 8 float_zero) (replicate 8 float_zero) (replicate 8 float_zero) 8 =
     map (\<lambda>t. float_add (float_add (float_add (float64_sums ! t) float_zero)
            (replicate 8 float_zero ! t)) (replicate 8 float_zero ! t)) [0..<8]"
    unfolding forecast64_def
    by (simp only: Let_def zeros64_nth float_add_zeros walk64_fold)
  also have "\<dots> = float64_sums"
    by (simp only: upt_0_8 list.map) (simp add: float64_sums_def float_add_zeros)
  finally show ?thesis .
qed

section \<open>The claims\<close>

text \<open>
  C2. On a model on which \<open>fit\<close> has not been called (\<open>self.trace\<close> is still the \<open>None\<close>
  of \<open>__init__\<close>), every call of \<open>predict\<close> and of \<open>posterior_model\<close> fails, whatever its
  arguments, at its first read of the trace and leaves the state as it was. The failure
  is Python's \<open>TypeError\<close> for subscripting \<open>None\<close>; the specification names it
  \<open>InferenceNotRunError\<close>.
\<close>

theorem predict_before_fit:
  assumes "self_trace w = None"
  shows "predict gauss features noise w = (Inl TypeError, w)
    \<and> posterior_model features w = (Inl TypeError, w)"
  using assms by (simp add: predict_def posterior_model_def)

theorem predict_before_fit_witness:
  "self_trace (init (0::nat)) = None
   \<and> predict example_gauss example_features True (init 0) = (Inl TypeError, init 0)
   \<and> posterior_model example_features (init (0::nat)) = (Inl TypeError, init 0)"
  using predict_before_fit [of "init (0::nat)" example_gauss example_features True]
  by (simp add: init_def)

text \<open>
  C3. On a fitted model (a valid trace whose \<open>delta\<close> and \<open>trend\<close> have a last column)
  and a rectangular features frame with the \<open>K\<close> columns of the fit and \<open>T' \<ge> 1\<close> rows,
  \<open>predict(features, noise)\<close> returns the trajectory of length \<open>T'\<close> whose value at \<open>t\<close> is
  \<open>trend[t] + alpha_hat + \<Sum>\<^sub>i beta_hat\<^sub>i * features[t, i] + eps[t]\<close>, with
  \<open>delta[0] = mean(trace['delta'][:, -1]) + v[0]\<close>,
  \<open>trend[0] = mean(trace['trend'][:, -1]) + delta[0] + u[0]\<close>,
  \<open>delta[t] = delta[t-1] + v[t]\<close> and \<open>trend[t] = trend[t-1] + delta[t] + u[t]\<close>
  (\<open>spec_predict\<close>), where \<open>eps\<close>, \<open>u\<close>, \<open>v\<close> are the noise vectors of length \<open>T'\<close> of this
  call, all zero when \<open>noise\<close> is false.
\<close>

theorem predict_recursion:
  assumes tr: "self_trace w = Some tr" "valid_trace tr"
    and cols: "0 < ncols (trace_delta tr)" "0 < ncols (trace_trend tr)"
    and f: "wf_matrix features" "ncols features = ncols (trace_beta tr)" "1 \<le> nrows features"
  shows "\<exists>eps u v g.
      noise_vectors gauss noise tr (nrows features) (np_random w) = (Inr (eps, u, v), g) \<and>
      length eps = nrows features \<and> length u = nrows features \<and> length v = nrows features \<and>
      (\<not> noise \<longrightarrow> eps = zeros (nrows features) \<and> u = zeros (nrows features) \<and>
         v = zeros (nrows features) \<and> g = np_random w) \<and>
      predict gauss features noise w =
        (Inr (map (spec_predict tr features eps u v) [0..<nrows features]), w\<lparr>np_random := g\<rparr>)"
proof -
  obtain k where k: "nrows features = Suc k"
    using f(3) by (cases "nrows features") simp_all
  obtain eps u v g where nv:
      "noise_vectors gauss noise tr (nrows features) (np_random w) = (Inr (eps, u, v), g)"
      "length eps = nrows features" "length u = nrows features" "length v = nrows features"
      "\<not> noise \<longrightarrow> eps = zeros (nrows features) \<and> u = zeros (nrows features) \<and>
         v = zeros (nrows features) \<and> g = np_random w"
  proof (cases noise)
    case True
    then show ?thesis
      using noise_vectors_True [OF tr(2), of gauss "nrows features" "np_random w"] that by auto
  next
    case False
    then show ?thesis
      using noise_vectors_False [of gauss tr "nrows features" "np_random w"] that
      by (simp add: zeros_def)
  qed
  have "forecast tr features (np_mean (trace_alpha tr)) (mean_axis0 (trace_beta tr)) eps u v =
      Inr (map (spec_predict tr features eps u v) [0..<nrows features])"
    using forecast_eq [OF cols k _ _ _ f(1), of eps u v] nv(2-4) f(2) by (simp only: k)
  then show ?thesis
    using predict_fitted [OF tr(1) nv(1)] nv by auto
qed

theorem predict_recursion_witness:
  "self_trace example_world = Some example_trace \<and> valid_trace example_trace
   \<and> 0 < ncols (trace_delta example_trace) \<and> 0 < ncols (trace_trend example_trace)
   \<and> wf_matrix example_features \<and> ncols example_features = ncols (trace_beta example_trace)
   \<and> 1 \<le> nrows example_features
   \<and> predict example_gauss example_features True example_world =
       (Inr [21, 49], example_world\<lparr>np_random := 6\<rparr>)"
proof -
  obtain eps u v g where
    nv: "noise_vectors example_gauss True example_trace (nrows example_features)
          (np_random example_world) = (Inr (eps, u, v), g)"
    and p: "predict example_gauss example_features True example_world =
        (Inr (map (spec_predict example_trace example_features eps u v)
           [0..<nrows example_features]), example_world\<lparr>np_random := g\<rparr>)"
    using predict_recursion [OF example_valid, of example_gauss True] by blast
  have n: "nrows example_features = 2" "np_random example_world = 0"
    by (simp_all add: nrows_def example_features_def example_world_def)
  have "eps = [0, 2] \<and> u = [2, 3] \<and> v = [8, 10] \<and> g = 6"
    using nv example_noise by (simp add: n)
  then have "predict example_gauss example_features True example_world =
      (Inr (map (spec_predict example_trace example_features [0, 2] [2, 3] [8, 10]) [0, 1]),
       example_world\<lparr>np_random := 6\<rparr>)"
    using p by (simp add: n numeral_2_eq_2)
  then show ?thesis
    using example_valid
    by (simp add: spec_predict_def regression_def example_means cell_def example_features_def)
qed

text \<open>
  C4. On a fitted model and a rectangular features frame with the \<open>K\<close> columns of the fit
  and as many rows as the training series, \<open>posterior_model(features)\<close> returns a series of
  length \<open>features.rows\<close> whose value at \<open>t\<close> is \<open>mean(trend[:, t]) + mean(alpha) +
  \<Sum>\<^sub>i mean(beta\<^sub>i) * features[t, i]\<close>, the means taken across the posterior draws.
\<close>

theorem posterior_model_fitted:
  assumes tr: "self_trace w = Some tr" "valid_trace tr"
    and f: "wf_matrix features" "ncols features = ncols (trace_beta tr)"
      "nrows features = ncols (trace_trend tr)"
  shows "\<exists>ys. posterior_model features w = (Inr ys, w) \<and> length ys = nrows features \<and>
      (\<forall>t<nrows features. ys ! t =
          draw_mean (trace_trend tr) t + np_mean (trace_alpha tr) +
          (\<Sum>i\<leftarrow>[0..<ncols features]. draw_mean (trace_beta tr) i * cell features t i))"
proof -
  let ?beta = "mean_axis0 (trace_beta tr)"
  let ?ys = "map (\<lambda>t. draw_mean (trace_trend tr) t + np_mean (trace_alpha tr) +
      (\<Sum>i\<leftarrow>[0..<ncols features]. draw_mean (trace_beta tr) i * cell features t i))
      [0..<nrows features]"
  have mul: "array_mul_frame ?beta features =
      Inr (features\<lparr>rows := map (\<lambda>r. map2 (*) ?beta r) (rows features)\<rparr>)"
    by (simp add: array_mul_frame_def f(2))
  have sums: "sum_axis1 (features\<lparr>rows := map (\<lambda>r. map2 (*) ?beta r) (rows features)\<rparr>) =
      map (\<lambda>t. \<Sum>i\<leftarrow>[0..<ncols features]. draw_mean (trace_beta tr) i * cell features t i)
        [0..<nrows features]"
    by (rule beta_features_rows [OF f(1) f(2) [symmetric]])
  have "add_arrays (map (\<lambda>x. x + np_mean (trace_alpha tr)) (mean_axis0 (trace_trend tr)))
      (map (\<lambda>t. \<Sum>i\<leftarrow>[0..<ncols features]. draw_mean (trace_beta tr) i * cell features t i)
        [0..<nrows features]) = Inr ?ys"
    apply (simp add: add_arrays_def f(3))
    apply (rule nth_equalityI)
     apply (simp_all add: f(3) mean_axis0_nth)
    done
  then have "posterior_model features w = (Inr ?ys, w)"
    by (simp add: posterior_model_def tr(1) mul sums)
  then show ?thesis
    by (intro exI [of _ ?ys]) simp
qed

theorem posterior_model_fitted_witness:
  "self_trace example_world = Some example_trace \<and> valid_trace example_trace
   \<and> wf_matrix example_training
   \<and> ncols example_training = ncols (trace_beta example_trace)
   \<and> nrows example_training = ncols (trace_trend example_trace)
   \<and> posterior_model example_training example_world = (Inr [7, 11, 15], example_world)"
proof -
  obtain ys where ys: "posterior_model example_training example_world = (Inr ys, example_world)"
    "length ys = nrows example_training"
    and v: "\<forall>t<nrows example_training. ys ! t =
        draw_mean (trace_trend example_trace) t + np_mean (trace_alpha example_trace) +
        (\<Sum>i\<leftarrow>[0..<ncols example_training].
            draw_mean (trace_beta example_trace) i * cell example_training t i)"
    using posterior_model_fitted [OF example_valid(1,2) example_training_valid] by blast
  have "ys ! 0 = 7" "ys ! Suc 0 = 11" "ys ! 2 = 15"
    using v by (simp_all add: example_training_cells example_means)
  moreover have "length ys = 3"
    using ys(2) by (simp add: example_training_cells)
  ultimately have "ys = [7, 11, 15]"
    by (intro nth_equalityI) (auto simp: less_Suc_eq numeral_3_eq_3 numeral_2_eq_2)
  then show ?thesis
    using ys(1) example_valid(1,2) example_training_valid by blast
qed

text \<open>
  C5. \<open>predict(features, noise=False)\<close> draws nothing: it leaves the whole state, the
  generator included, as it was, so a second call returns what the first returned; and
  its result does not depend on the generator or on its state.
\<close>

theorem predict_deterministic:
  "snd (predict gauss features False w) = w
   \<and> predict gauss features False (snd (predict gauss features False w)) =
       predict gauss features False w
   \<and> fst (predict gauss' features False (w\<lparr>np_random := g\<rparr>)) =
       fst (predict gauss features False w)"
  by (cases "self_trace w") (simp_all add: predict_def noise_vectors_def)

theorem predict_deterministic_witness:
  "snd (predict example_gauss example_features False example_world) = example_world
   \<and> fst (predict (\<lambda>g. (0, g)) example_features False (example_world\<lparr>np_random := 5\<rparr>)) =
       fst (predict example_gauss example_features False example_world)"
  using predict_deterministic [of example_gauss example_features example_world "\<lambda>g. (0, g)" 5]
  by simp

text \<open>
  C8. \<open>predict\<close> and \<open>posterior_model\<close> never modify the trace or the model: after any call
  of either, with any arguments and whether it returns or fails, \<open>self.trace\<close> and
  \<open>self.model\<close> are what they were.
\<close>

theorem trace_read_only:
  "self_trace (snd (predict gauss features noise w)) = self_trace w
   \<and> self_model (snd (predict gauss features noise w)) = self_model w
   \<and> self_trace (snd (posterior_model features' w)) = self_trace w
   \<and> self_model (snd (posterior_model features' w)) = self_model w"
  by (cases "self_trace w")
    (auto simp: predict_def posterior_model_def Let_def split: prod.splits sum.splits)

theorem trace_read_only_witness:
  "self_trace (snd (predict example_gauss example_features True example_world)) = Some example_trace
   \<and> self_model (snd (predict example_gauss example_features True example_world)) = None
   \<and> self_trace (snd (posterior_model example_training example_world)) = Some example_trace
   \<and> self_model (snd (posterior_model example_training example_world)) = None"
  using trace_read_only [of example_gauss example_features True example_world example_training]
  by (simp add: example_world_def)

text \<open>
  C9. With a features frame of zero rows \<open>predict\<close> never returns a trajectory. On a
  fitted model it fails with the \<open>IndexError\<close> of line 97: the noise vectors have length
  zero and \<open>v[0]\<close> is out of bounds (with \<open>noise=True\<close> this needs scales that are not
  negative, which a valid trace has; otherwise \<open>np.random.normal\<close> fails first).
\<close>

theorem predict_no_rows:
  assumes "nrows features = 0"
  shows "(\<forall>ys. fst (predict gauss features noise w) \<noteq> Inr ys)
    \<and> (\<forall>tr. self_trace w = Some tr \<and> (noise \<longrightarrow> valid_trace tr) \<longrightarrow>
          fst (predict gauss features noise w) = Inl IndexError)"
proof (cases "self_trace w")
  case None
  then show ?thesis
    by (simp add: predict_def)
next
  case (Some tr)
  show ?thesis
  proof (cases noise)
    case False
    then show ?thesis
      using Some assms by (simp add: predict_def noise_vectors_def zeros_def forecast_no_rows)
  next
    case True
    have "fst (predict gauss features True w) = Inl IndexError" if vt: "valid_trace tr"
    proof -
      obtain eps u v where nv: "noise_vectors gauss True tr (nrows features) (np_random w) =
          (Inr (eps, u, v), advance gauss (3 * nrows features) (np_random w))" "length v = nrows features"
        using noise_vectors_True [OF vt, of gauss "nrows features" "np_random w"] by blast
      then have "v = []"
        using assms by simp
      then show ?thesis
        using predict_fitted [OF Some nv(1)] by (simp add: forecast_no_rows)
    qed
    moreover have "fst (predict gauss features True w) \<noteq> Inr ys" for ys
      using Some assms
      by (auto simp: predict_def noise_vectors_def np_random_normal_def forecast_no_rows
          split: prod.splits sum.splits if_splits)
    ultimately show ?thesis
      using Some True by simp
  qed
qed

theorem predict_no_rows_witness:
  "nrows no_rows = 0 \<and> self_trace example_world = Some example_trace \<and> valid_trace example_trace
   \<and> fst (predict example_gauss no_rows True example_world) = Inl IndexError"
proof -
  have n: "nrows no_rows = 0"
    by (simp add: no_rows_def nrows_def)
  show ?thesis
    using predict_no_rows [OF n, of example_gauss True example_world] example_valid(1,2) n
    by blast
qed

text \<open>
  C10. On a fitted model and features with \<open>T' \<ge> 1\<close> rows, the value of
  \<open>predict(features, noise=False)\<close> at every \<open>t < T'\<close> is \<open>s\<^sub>t + alpha_hat +
  \<Sum>\<^sub>i beta_hat\<^sub>i * features[t, i]\<close>, where \<open>s\<^sub>t\<close> is \<open>mean(trace['trend'][:, -1])\<close> with
  \<open>mean(trace['delta'][:, -1])\<close> added to it \<open>t + 1\<close> times in succession, as the loop adds
  it; the state is left as it was. The repeated sum is the linear extrapolation
  \<open>mean(trace['trend'][:, -1]) + (t+1) * mean(trace['delta'][:, -1])\<close> in exact arithmetic
  only.
\<close>

theorem predict_repeated_sum:
  assumes tr: "self_trace w = Some tr" "valid_trace tr"
    and cols: "0 < ncols (trace_delta tr)" "0 < ncols (trace_trend tr)"
    and f: "wf_matrix features" "ncols features = ncols (trace_beta tr)" "1 \<le> nrows features"
  shows "predict gauss features False w =
      (Inr (map (\<lambda>t. repeated_add (last_mean (trace_trend tr)) (last_mean (trace_delta tr)) t
                    + np_mean (trace_alpha tr)
                    + (\<Sum>i\<leftarrow>[0..<ncols features]. draw_mean (trace_beta tr) i * cell features t i))
              [0..<nrows features]), w)"
proof -
  let ?n = "nrows features"
  obtain k where k: "?n = Suc k"
    using f(3) by (cases ?n) simp_all
  have "forecast tr features (np_mean (trace_alpha tr)) (mean_axis0 (trace_beta tr))
        (zeros ?n) (zeros ?n) (zeros ?n) =
      Inr (map (spec_predict tr features (zeros ?n) (zeros ?n) (zeros ?n)) [0..<?n])"
    using forecast_eq [OF cols k _ _ _ f(1), of "zeros ?n" "zeros ?n" "zeros ?n"] f(2)
    by (simp add: zeros_def k del: upt_Suc replicate_Suc)
  moreover have "map (spec_predict tr features (zeros ?n) (zeros ?n) (zeros ?n)) [0..<?n] =
      map (\<lambda>t. repeated_add (last_mean (trace_trend tr)) (last_mean (trace_delta tr)) t
                    + np_mean (trace_alpha tr)
                    + (\<Sum>i\<leftarrow>[0..<ncols features]. draw_mean (trace_beta tr) i * cell features t i))
        [0..<?n]"
    by (rule map_cong) (simp_all add: spec_predict_def spec_trend_zeros regression_def zeros_nth)
  ultimately show ?thesis
    using predict_fitted [OF tr(1) noise_vectors_False] by simp
qed

theorem predict_repeated_sum_witness:
  "self_trace example_world = Some example_trace \<and> valid_trace example_trace
   \<and> 0 < ncols (trace_delta example_trace) \<and> 0 < ncols (trace_trend example_trace)
   \<and> wf_matrix example_features \<and> ncols example_features = ncols (trace_beta example_trace)
   \<and> 1 \<le> nrows example_features
   \<and> predict example_gauss example_features False example_world = (Inr [11, 16], example_world)"
proof -
  have "predict example_gauss example_features False example_world = (Inr [11, 16], example_world)"
    using predict_repeated_sum [OF example_valid, of example_gauss]
    by (simp add: example_rows example_means)
  then show ?thesis
    using example_valid by blast
qed

text \<open>
  C10 as stated fails in the arithmetic of the program. With the anchors
  \<open>mean(trace['trend'][:, -1]) = 0.0\<close> and \<open>mean(trace['delta'][:, -1]) = 0.1\<close>, \<open>alpha_hat\<close>
  and the row sums \<open>0.0\<close> (a trace of one draw, whose means are its draws, and features
  of eight rows and no column), the value of the forecast without noise at \<open>t = 7\<close> is
  \<open>7205759403792793 * 2 ^ -53\<close> (printed \<open>0.7999999999999999\<close>), and the closed form
  \<open>0.0 + 8 * 0.1 + 0.0 + 0.0\<close> is \<open>7205759403792794 * 2 ^ -53\<close> (printed \<open>0.8\<close>).
\<close>

theorem float64_sum_not_linear:
  "forecast64 float_tenth float_zero float_zero (replicate 8 float_zero) (replicate 8 float_zero)
     (replicate 8 float_zero) (replicate 8 float_zero) 8 ! 7 = (7205759403792793, - 53)
   \<and> float_val (forecast64 float_tenth float_zero float_zero (replicate 8 float_zero)
        (replicate 8 float_zero) (replicate 8 float_zero) (replicate 8 float_zero) 8 ! 7)
     \<noteq> float_val float_zero + real (7 + 1) * float_val float_tenth
         + float_val float_zero + float_val float_zero"
proof -
  have v: "forecast64 float_tenth float_zero float_zero (replicate 8 float_zero)
      (replicate 8 float_zero) (replicate 8 float_zero) (replicate 8 float_zero) 8 ! 7 =
      (7205759403792793, - 53)"
    by (simp add: forecast64_sums float64_sums_def)
  have "float_val (7205759403792793, - 53) \<noteq>
      float_val float_zero + real (7 + 1) * float_val float_tenth
        + float_val float_zero + float_val float_zero"
    by (simp add: float_val_def float_zero_def float_tenth_def)
  then show ?thesis
    by (simp only: v simp_thms)
qed

text \<open>
  C6. As amended: on a fitted model and features with \<open>T' \<ge> 1\<close> rows,
  \<open>predict_trajectories(features, n)\<close> returns a table of \<open>n\<close> rows of length \<open>T'\<close>; row \<open>i\<close>
  is what \<open>predict(features, noise=True)\<close> returns in the state the \<open>i\<close> calls before it
  left, and that call starts after \<open>3 * T' * i\<close> draws of the generator: each call draws
  its own \<open>3 * T'\<close> values.
\<close>

theorem predict_trajectories_rows:
  assumes tr: "self_trace w = Some tr" "valid_trace tr"
    and cols: "0 < ncols (trace_delta tr)" "0 < ncols (trace_trend tr)"
    and f: "wf_matrix features" "ncols features = ncols (trace_beta tr)" "1 \<le> nrows features"
  shows "\<exists>table.
      predict_trajectories gauss features n w = (Inr table, state_after gauss features (nat n) w)
      \<and> length table = nat n
      \<and> (\<forall>i<nat n.
            length (table ! i) = nrows features
            \<and> predict gauss features True (state_after gauss features i w) =
                (Inr (table ! i), state_after gauss features (Suc i) w)
            \<and> np_random (state_after gauss features i w) =
                advance gauss (3 * nrows features * i) (np_random w))"
  using trajectories_rows [OF tr(2) cols f tr(1), of gauss "nat n"]
    state_after_random [OF tr cols f, of gauss]
  by (simp add: predict_trajectories_def)

theorem predict_trajectories_rows_witness:
  "self_trace example_world = Some example_trace \<and> valid_trace example_trace
   \<and> 0 < ncols (trace_delta example_trace) \<and> 0 < ncols (trace_trend example_trace)
   \<and> wf_matrix example_features \<and> ncols example_features = ncols (trace_beta example_trace)
   \<and> 1 \<le> nrows example_features
   \<and> (\<exists>table. predict_trajectories example_gauss example_features 2 example_world =
         (Inr table, state_after example_gauss example_features 2 example_world)
       \<and> length table = 2 \<and> length (table ! 0) = 2 \<and> length (table ! 1) = 2
       \<and> predict example_gauss example_features True example_world =
           (Inr (table ! 0), state_after example_gauss example_features 1 example_world)
       \<and> np_random (state_after example_gauss example_features 1 example_world) = 6)"
proof -
  obtain table where t:
    "predict_trajectories example_gauss example_features 2 example_world =
       (Inr table, state_after example_gauss example_features (nat 2) example_world)"
    "length table = nat 2"
    "\<forall>i<nat 2. length (table ! i) = nrows example_features
        \<and> predict example_gauss example_features True
            (state_after example_gauss example_features i example_world) =
            (Inr (table ! i), state_after example_gauss example_features (Suc i) example_world)
        \<and> np_random (state_after example_gauss example_features i example_world) =
            advance example_gauss (3 * nrows example_features * i) (np_random example_world)"
    using predict_trajectories_rows [OF example_valid, of example_gauss 2] by blast
  have n: "nrows example_features = 2"
    by (simp add: nrows_def example_features_def)
  have a: "advance example_gauss k g = g + k" for k g
    by (induction k) (simp_all add: advance_def example_gauss_def)
  have "length (table ! 0) = 2" "length (table ! 1) = 2"
    "predict example_gauss example_features True example_world =
       (Inr (table ! 0), state_after example_gauss example_features 1 example_world)"
    "np_random (state_after example_gauss example_features 1 example_world) = 6"
    using t(3) [rule_format, of 0] t(3) [rule_format, of 1]
    by (simp_all add: n a example_world_def) (simp add: state_after_def)
  then show ?thesis
    using t(1,2) example_valid by (intro conjI exI [of _ table]) simp_all
qed

text \<open>
  C6 as stated fails for features with no row: the first call of \<open>predict\<close> fails at
  \<open>v[0]\<close>, the comprehension ends with this \<open>IndexError\<close>, and no table is returned.
\<close>

theorem predict_trajectories_no_rows:
  "nrows no_rows = 0
   \<and> predict_trajectories example_gauss no_rows 2 example_world = (Inl IndexError, example_world)"
proof -
  have n: "nrows no_rows = 0"
    by (simp add: no_rows_def nrows_def)
  have "noise_vectors example_gauss True example_trace 0 0 = (Inr ([], [], []), 0)"
    by (simp add: noise_vectors_def np_random_normal_def example_means)
  then have "predict example_gauss no_rows True example_world = (Inl IndexError, example_world)"
    by (simp add: predict_def n forecast_no_rows example_world_def)
  then show ?thesis
    by (simp add: predict_trajectories_def n numeral_2_eq_2)
qed

text \<open>
  C7. After every call of \<open>fit\<close>, with observed of length \<open>T \<ge> 1\<close> and features of \<open>K\<close>
  columns, the graph in \<open>self.model\<close> declares \<open>trend\<close> with shape \<open>T\<close>, \<open>delta\<close> with shape
  \<open>T - 1\<close> and \<open>beta\<close> with shape \<open>K\<close>, whether the call returns or fails later: the three
  are declared before the sum \<open>trend + reg\<close> and before the sampler runs.
\<close>

theorem fit_graph_shapes:
  assumes "0 < length observed"
  shows "\<exists>m. self_model (snd (fit sample features observed n w)) = Some m
     \<and> shape_of_rv m ''trend'' = Some [int (length observed)]
     \<and> shape_of_rv m ''delta'' = Some [int (length observed) - 1]
     \<and> shape_of_rv m ''beta'' = Some [int (ncols features)]"
proof -
  obtain r where r: "reg_shape features = Inr r"
    by (simp add: reg_shape_eq)
  show ?thesis
  proof (cases "broadcast [int (length observed)] r")
    case (Inl e)
    then show ?thesis
      using assms by (simp add: fit_def r Let_def shape_of_rv_def declare_rv_def)
  next
    case (Inr mu)
    then show ?thesis
      using assms
      by (simp add: fit_def r Let_def shape_of_rv_def declare_rv_def split: sum.splits prod.splits)
  qed
qed

theorem fit_graph_shapes_witness:
  "0 < length [1, 2, 3 :: real]
   \<and> (\<exists>m. self_model (snd (fit example_sample example_training [1, 2, 3] 500 (init 0))) = Some m
     \<and> shape_of_rv m ''trend'' = Some [3] \<and> shape_of_rv m ''delta'' = Some [2]
     \<and> shape_of_rv m ''beta'' = Some [1])"
  using fit_graph_shapes [of "[1, 2, 3]" example_sample example_training 500 "init 0"]
  by (simp add: example_training_def)

text \<open>
  C1. \<open>fit\<close> makes no check of its own of the rows of the features against the length of
  the observed series; what fails is the elementwise sum \<open>trend + reg\<close> of line 54, by
  the broadcasting rule of the tensor library. As amended: for features with at least one column whose number of rows differs from the
  length of the observed series, neither of the two being 1, \<open>fit\<close> fails with the
  \<open>ValueError\<close> of that sum (the specification's \<open>DimensionMismatchError\<close>) while the graph
  is built: the sampler has no part in the result, and the trace and the generator are
  left as they were.
\<close>

theorem fit_shape_mismatch:
  assumes "0 < ncols features" and "nrows features \<noteq> length observed"
    and "nrows features \<noteq> 1" and "length observed \<noteq> 1"
  shows "fst (fit sample features observed n w) = Inl ValueError
    \<and> self_trace (snd (fit sample features observed n w)) = self_trace w
    \<and> np_random (snd (fit sample features observed n w)) = np_random w
    \<and> fit sample' features observed n w = fit sample features observed n w"
  using assms by (simp add: fit_def reg_shape_eq Let_def broadcast_vectors)

theorem fit_shape_mismatch_witness:
  "0 < ncols example_training \<and> nrows example_training \<noteq> length [1, 2 :: real]
   \<and> nrows example_training \<noteq> 1 \<and> length [1, 2 :: real] \<noteq> 1
   \<and> fst (fit example_sample example_training [1, 2] 500 (init 0)) = Inl ValueError
   \<and> self_trace (snd (fit example_sample example_training [1, 2] 500 (init 0))) = None"
proof -
  have h: "0 < ncols example_training" "nrows example_training \<noteq> length [1, 2 :: real]"
      "nrows example_training \<noteq> 1" "length [1, 2 :: real] \<noteq> 1"
    by (simp_all add: example_training_def nrows_def)
  show ?thesis
    using fit_shape_mismatch [OF h, of example_sample 500 "init 0"] h by (simp add: init_def)
qed

text \<open>
  C1 as stated fails in three ways. With no column (three rows against two
  observations) \<open>range(features.shape[1])\<close> is empty and the rows are never read. With one
  row (against two observations) and with one observation (against three rows) the sum
  \<open>trend + reg\<close> broadcasts the operand of length one. In each case \<open>fit\<close> runs the sampler
  and stores its trace.
\<close>

theorem fit_accepts_mismatch:
  "nrows no_columns \<noteq> length [1, 2 :: real]
   \<and> fst (fit example_sample no_columns [1, 2] 500 (init 0)) = Inr ()
   \<and> self_trace (snd (fit example_sample no_columns [1, 2] 500 (init 0))) = Some example_trace
   \<and> nrows one_row \<noteq> length [1, 2 :: real]
   \<and> fst (fit example_sample one_row [1, 2] 500 (init 0)) = Inr ()
   \<and> self_trace (snd (fit example_sample one_row [1, 2] 500 (init 0))) = Some example_trace
   \<and> nrows example_training \<noteq> length [1 :: real]
   \<and> fst (fit example_sample example_training [1] 500 (init 0)) = Inr ()
   \<and> self_trace (snd (fit example_sample example_training [1] 500 (init 0))) = Some example_trace"
proof -
  have "fst (fit example_sample no_columns [1, 2] 500 (init 0)) = Inr ()
      \<and> self_trace (snd (fit example_sample no_columns [1, 2] 500 (init 0))) = Some example_trace"
    by (simp add: fit_def reg_shape_eq Let_def broadcast_def no_columns_def
        nrows_def example_sample_def init_def)
  moreover have "fst (fit example_sample one_row [1, 2] 500 (init 0)) = Inr ()
      \<and> self_trace (snd (fit example_sample one_row [1, 2] 500 (init 0))) = Some example_trace"
    by (simp add: fit_def reg_shape_eq Let_def broadcast_vectors one_row_def
        nrows_def example_sample_def init_def)
  moreover have "fst (fit example_sample example_training [1] 500 (init 0)) = Inr ()
      \<and> self_trace (snd (fit example_sample example_training [1] 500 (init 0))) = Some example_trace"
    by (simp add: fit_def reg_shape_eq Let_def broadcast_vectors example_training_def
        nrows_def example_sample_def init_def)
  ultimately show ?thesis
    by (simp add: no_columns_def one_row_def example_training_def nrows_def)
qed

end
